theory Spec2Isabelle
  imports Main "HOL-Library.Word"
begin

unbundle bit_operations_syntax

section \<open>Token registrar: \<^verbatim>\<open>scripts/add_token.py\<close>\<close>

text \<open>
  The script validates a contract address, asks a JSON-RPC node for the token's name, symbol
  and decimals, and writes them to \<^verbatim>\<open>mainnet/<symbol>/data.json\<close>.  Python strings are
  modelled by their UTF-8 bytes (\<^typ>\<open>string\<close>); every string operation of the program
  acts on ASCII characters only and leaves other bytes alone.  Exceptions are values of
  \<open>exn\<close>; the file system, the standard output and the RPC traffic are explicit state.
\<close>

subsection \<open>Exceptions\<close>

datatype errno = ENOENT | ENOTDIR | EEXIST | EISDIR

text \<open>
  The constructors with a message are the exceptions the program (or a library, for
  \<open>ValueError\<close>, \<open>KeyError\<close>, \<open>TypeError\<close>) raises with that text.  \<open>OSError e p\<close> is the
  exception the operating-system layer raises for the error number \<open>e\<close> on the file name
  \<open>p\<close>; Python gives it the class \<open>FileNotFoundError\<close>, \<open>NotADirectoryError\<close>,
  \<open>FileExistsError\<close> or \<open>IsADirectoryError\<close> according to \<open>e\<close>.  \<open>NotHexString v\<close> and
  \<open>UnknownFormat v h\<close> are the two \<open>ValueError\<close>s of \<^verbatim>\<open>eth_utils\<close> (``when sending a str, it
  must be a hex string'' and ``Unknown format \<dots>, attempted to normalize to \<dots>''), kept with
  the values their messages quote.
\<close>

datatype exn =
    ValueError string
  | FileNotFoundError string
  | FileExistsError string
  | Exception string
  | KeyError string
  | TypeError string
  | OSError errno string
  | NotHexString string
  | UnknownFormat string string
  | EOFError

fun isinstance_ValueError :: "exn \<Rightarrow> bool" where
  "isinstance_ValueError (ValueError m) = True"
| "isinstance_ValueError (NotHexString v) = True"
| "isinstance_ValueError (UnknownFormat v h) = True"
| "isinstance_ValueError e = False"

fun isinstance_FileNotFoundError :: "exn \<Rightarrow> bool" where
  "isinstance_FileNotFoundError (FileNotFoundError m) = True"
| "isinstance_FileNotFoundError (OSError e p) = (e = ENOENT)"
| "isinstance_FileNotFoundError e = False"

fun isinstance_FileExistsError :: "exn \<Rightarrow> bool" where
  "isinstance_FileExistsError (FileExistsError m) = True"
| "isinstance_FileExistsError (OSError e p) = (e = EEXIST)"
| "isinstance_FileExistsError e = False"

subsection \<open>Characters\<close>

definition is_digit :: "char \<Rightarrow> bool" where
  "is_digit c = (c \<in> set ''0123456789'')"

definition is_lower_letter :: "char \<Rightarrow> bool" where
  "is_lower_letter c = (c \<in> set ''abcdefghijklmnopqrstuvwxyz'')"

definition is_upper_letter :: "char \<Rightarrow> bool" where
  "is_upper_letter c = (c \<in> set ''ABCDEFGHIJKLMNOPQRSTUVWXYZ'')"

definition is_hex_char :: "char \<Rightarrow> bool" where
  "is_hex_char c = (c \<in> set ''0123456789abcdefABCDEF'')"

definition lower_char :: "char \<Rightarrow> char" where
  "lower_char c =
     (case map_of (zip ''ABCDEFGHIJKLMNOPQRSTUVWXYZ'' ''abcdefghijklmnopqrstuvwxyz'') c of
        Some l \<Rightarrow> l | None \<Rightarrow> c)"

definition upper_char :: "char \<Rightarrow> char" where
  "upper_char c =
     (case map_of (zip ''abcdefghijklmnopqrstuvwxyz'' ''ABCDEFGHIJKLMNOPQRSTUVWXYZ'') c of
        Some u \<Rightarrow> u | None \<Rightarrow> c)"

text \<open>\<^verbatim>\<open>str.lower\<close>, \<^verbatim>\<open>str.islower\<close>, \<^verbatim>\<open>str.isupper\<close>, \<^verbatim>\<open>str.isnumeric\<close> on ASCII text.\<close>

definition lower :: "string \<Rightarrow> string" where
  "lower s = map lower_char s"

definition islower :: "string \<Rightarrow> bool" where
  "islower s = (list_ex is_lower_letter s \<and> \<not> list_ex is_upper_letter s)"

definition isupper :: "string \<Rightarrow> bool" where
  "isupper s = (list_ex is_upper_letter s \<and> \<not> list_ex is_lower_letter s)"

definition isnumeric :: "string \<Rightarrow> bool" where
  "isnumeric s = (s \<noteq> [] \<and> list_all is_digit s)"

subsection \<open>Keccak-256\<close>

text \<open>
  \<^verbatim>\<open>eth_utils.keccak\<close>: the sponge with rate 136 bytes and capacity 64 bytes over the
  permutation Keccak-f[1600], with the original padding \<open>0x01 \<dots> 0x80\<close>.  The state is the
  list of its 25 lanes, lane \<open>(x, y)\<close> at index \<open>x + 5 * y\<close>.
\<close>

type_synonym lane = "64 word"

definition RC :: "lane list" where
  "RC = [0x0000000000000001, 0x0000000000008082, 0x800000000000808A, 0x8000000080008000,
         0x000000000000808B, 0x0000000080000001, 0x8000000080008081, 0x8000000000008009,
         0x000000000000008A, 0x0000000000000088, 0x0000000080008009, 0x000000008000000A,
         0x000000008000808B, 0x800000000000008B, 0x8000000000008089, 0x8000000000008003,
         0x8000000000008002, 0x8000000000000080, 0x000000000000800A, 0x800000008000000A,
         0x8000000080008081, 0x8000000000008080, 0x0000000080000001, 0x8000000080008008]"

definition rot_offsets :: "nat list" where
  "rot_offsets = [0, 1, 62, 28, 27,  36, 44, 6, 55, 20,  3, 10, 43, 25, 39,
                  41, 45, 15, 21, 8,  18, 2, 61, 56, 14]"

definition rotl :: "nat \<Rightarrow> lane \<Rightarrow> lane" where
  "rotl n w = (push_bit n w) OR (drop_bit (64 - n) w)"

definition theta :: "lane list \<Rightarrow> lane list" where
  "theta A =
     (let C = map (\<lambda>x. A ! x XOR A ! (x + 5) XOR A ! (x + 10) XOR A ! (x + 15) XOR A ! (x + 20))
                [0..<5];
          D = map (\<lambda>x. C ! ((x + 4) mod 5) XOR rotl 1 (C ! ((x + 1) mod 5))) [0..<5]
      in map (\<lambda>i. A ! i XOR D ! (i mod 5)) [0..<25])"

definition rho_pi :: "lane list \<Rightarrow> lane list" where
  "rho_pi A =
     map (\<lambda>j. let x' = j mod 5; y' = j div 5; x = (x' + 3 * y') mod 5; y = x'
               in rotl (rot_offsets ! (x + 5 * y)) (A ! (x + 5 * y))) [0..<25]"

definition chi :: "lane list \<Rightarrow> lane list" where
  "chi B =
     map (\<lambda>i. let x = i mod 5; y = i div 5
               in B ! i XOR (NOT (B ! ((x + 1) mod 5 + 5 * y)) AND B ! ((x + 2) mod 5 + 5 * y)))
         [0..<25]"

definition iota :: "lane \<Rightarrow> lane list \<Rightarrow> lane list" where
  "iota rc A = (A ! 0 XOR rc) # tl A"

definition keccak_round :: "lane list \<Rightarrow> lane \<Rightarrow> lane list" where
  "keccak_round A rc = iota rc (chi (rho_pi (theta A)))"

definition keccak_f :: "lane list \<Rightarrow> lane list" where
  "keccak_f A = foldl keccak_round A RC"

definition pad :: "8 word list \<Rightarrow> 8 word list" where
  "pad m = (let k = 136 - (length m mod 136)
            in if k = 1 then m @ [0x81] else m @ [0x01] @ replicate (k - 2) 0 @ [0x80])"

fun le_lane :: "8 word list \<Rightarrow> lane" where
  "le_lane [] = 0"
| "le_lane (b # bs) = ucast b OR push_bit 8 (le_lane bs)"

fun chunks :: "nat \<Rightarrow> 'a list \<Rightarrow> 'a list list" where
  "chunks n [] = []"
| "chunks n xs = (if n = 0 then [xs] else take n xs # chunks n (drop n xs))"

definition absorb :: "lane list \<Rightarrow> 8 word list \<Rightarrow> lane list" where
  "absorb A block = keccak_f (map2 (XOR) A (map le_lane (chunks 8 block) @ replicate 8 0))"

definition lane_bytes :: "lane \<Rightarrow> 8 word list" where
  "lane_bytes w = map (\<lambda>i. ucast (drop_bit (8 * i) w)) [0..<8]"

definition keccak256 :: "8 word list \<Rightarrow> 8 word list" where
  "keccak256 m =
     concat (map lane_bytes (take 4 (foldl absorb (replicate 25 0) (chunks 136 (pad m)))))"

text \<open>
  \<^verbatim>\<open>encode_hex(keccak(text=s))\<close> without its \<open>0x\<close>: the value of each of the 64 hexadecimal
  digits of the hash of the bytes of \<open>s\<close>.
\<close>

definition keccak_nibbles :: "string \<Rightarrow> nat list" where
  "keccak_nibbles s =
     concat (map (\<lambda>b. [unat b div 16, unat b mod 16]) (keccak256 (map of_char s)))"

subsection \<open>Addresses: \<^verbatim>\<open>Web3.is_address\<close> and \<^verbatim>\<open>Web3.to_checksum_address\<close>\<close>

text \<open>
  Both are the functions of \<^verbatim>\<open>eth_utils\<close>, applied to a \<^verbatim>\<open>str\<close>:
  \<^verbatim>\<open>
  _HEX_ADDRESS_REGEXP = re.compile("(0x)?[0-9a-f]{40}", re.IGNORECASE | re.ASCII)

  def is_hex_address(value):      return _HEX_ADDRESS_REGEXP.fullmatch(value) is not None
  def _is_checksum_formatted(value):
      unprefixed_value = remove_0x_prefix(value)
      return (not unprefixed_value.islower() and not unprefixed_value.isupper()
              and not unprefixed_value.isnumeric())
  def is_checksum_address(value):
      if not is_hex_address(value): return False
      return value == to_checksum_address(value)
  def is_address(value):
      if is_hex_address(value):
          if _is_checksum_formatted(value): return is_checksum_address(value)
          return True
      return False                # is_binary_address holds of bytes only
  def to_normalized_address(value):
      hex_address = hexstr_if_str(to_hex, value).lower()
      if is_address(hex_address): return hex_address
      else: raise ValueError("Unknown format ...")
  def to_checksum_address(value):
      norm_address = to_normalized_address(value)
      address_hash = encode_hex(keccak(text=remove_0x_prefix(norm_address)))
      return add_0x_prefix("".join(
          (norm_address[i].upper() if int(address_hash[i], 16) > 7 else norm_address[i])
          for i in range(2, 42)))
  \<close>
\<close>

definition is_0x_prefixed :: "string \<Rightarrow> bool" where
  "is_0x_prefixed v = (take 2 v = ''0x'' \<or> take 2 v = ''0X'')"

definition remove_0x_prefix :: "string \<Rightarrow> string" where
  "remove_0x_prefix v = (if is_0x_prefixed v then drop 2 v else v)"

definition add_0x_prefix :: "string \<Rightarrow> string" where
  "add_0x_prefix v = (if is_0x_prefixed v then v else ''0x'' @ v)"

definition is_hex_address :: "string \<Rightarrow> bool" where
  "is_hex_address v =
     (length (remove_0x_prefix v) = 40 \<and> list_all is_hex_char (remove_0x_prefix v))"

definition is_checksum_formatted :: "string \<Rightarrow> bool" where
  "is_checksum_formatted v =
     (let unprefixed_value = remove_0x_prefix v
      in \<not> islower unprefixed_value \<and> \<not> isupper unprefixed_value
         \<and> \<not> isnumeric unprefixed_value)"

definition is_hexstr :: "string \<Rightarrow> bool" where
  "is_hexstr v = (v \<noteq> [] \<and> list_all is_hex_char (remove_0x_prefix v))"

text \<open>\<^verbatim>\<open>hexstr_if_str(to_hex, value)\<close>: the lower-cased, prefixed hexadecimal string.\<close>

definition hexstr_if_str_to_hex :: "string \<Rightarrow> exn + string" where
  "hexstr_if_str_to_hex v =
     (if remove_0x_prefix v \<noteq> [] \<and> \<not> is_hexstr v then Inl (NotHexString v)
      else Inr (add_0x_prefix (lower v)))"

text \<open>The casing step of \<^verbatim>\<open>to_checksum_address\<close>, on the normalized address.\<close>

definition checksum_encode :: "string \<Rightarrow> string" where
  "checksum_encode norm_address =
     (let address_hash = keccak_nibbles (remove_0x_prefix norm_address)
      in add_0x_prefix
           (map (\<lambda>i. if address_hash ! (i - 2) > 7 then upper_char (norm_address ! i)
                      else norm_address ! i) [2..<42]))"

function is_address :: "string \<Rightarrow> bool"
  and is_checksum_address :: "string \<Rightarrow> bool"
  and to_normalized_address :: "string \<Rightarrow> exn + string"
  and to_checksum_address :: "string \<Rightarrow> exn + string"
where
  "is_address v =
     (if is_hex_address v then
        (if is_checksum_formatted v then is_checksum_address v else True)
      else False)"
| "is_checksum_address v =
     (if \<not> is_hex_address v then False
      else (case to_checksum_address v of Inl e \<Rightarrow> False | Inr c \<Rightarrow> v = c))"
| "to_normalized_address v =
     (case hexstr_if_str_to_hex v of
        Inl e \<Rightarrow> Inl e
      | Inr h \<Rightarrow> (let hex_address = lower h
                  in if is_address hex_address then Inr hex_address
                     else Inl (UnknownFormat v hex_address)))"
| "to_checksum_address v =
     (case to_normalized_address v of
        Inl e \<Rightarrow> Inl e
      | Inr norm_address \<Rightarrow> Inr (checksum_encode norm_address))"
  by pat_completeness auto

lemma lower_char_not_upper: "\<not> is_upper_letter (lower_char c)"
  by (auto simp: is_upper_letter_def lower_char_def)

lemma hex_char_cases:
  "is_hex_char c \<Longrightarrow> is_digit c \<or> is_lower_letter c \<or> is_upper_letter c"
  by (auto simp: is_hex_char_def is_digit_def is_lower_letter_def is_upper_letter_def)

lemma set_remove_0x_prefix: "set (remove_0x_prefix v) \<subseteq> set v"
  by (auto simp: remove_0x_prefix_def dest: in_set_dropD)

lemma lower_not_checksum_formatted:
  assumes hx: "is_hex_address (lower h)"
  shows "\<not> is_checksum_formatted (lower h)"
proof -
  let ?u = "remove_0x_prefix (lower h)"
  have len: "?u \<noteq> []" and hex: "\<forall>c\<in>set ?u. is_hex_char c"
    using hx by (auto simp: is_hex_address_def list_all_iff)
  have noup: "\<forall>c\<in>set ?u. \<not> is_upper_letter c"
    using set_remove_0x_prefix[of "lower h"] lower_char_not_upper by (auto simp: lower_def)
  show ?thesis
  proof (cases "\<exists>c\<in>set ?u. is_lower_letter c")
    case True
    then have "islower ?u" using noup by (auto simp: islower_def list_ex_iff)
    then show ?thesis by (simp add: is_checksum_formatted_def)
  next
    case False
    then have "\<forall>c\<in>set ?u. is_digit c" using hex noup hex_char_cases by blast
    then have "isnumeric ?u" using len by (simp add: isnumeric_def list_all_iff)
    then show ?thesis by (simp add: is_checksum_formatted_def)
  qed
qed

text \<open>
  The recursion ends: \<^verbatim>\<open>to_normalized_address\<close> calls \<^verbatim>\<open>is_address\<close> on a lower-cased
  string, which is never checksum-formatted when it is a hexadecimal address, so that call
  does not reach \<^verbatim>\<open>is_checksum_address\<close> again.
\<close>

termination is_address
  by (relation "measure (\<lambda>x. case x of
          Inl (Inl v) \<Rightarrow> (if is_hex_address v \<and> is_checksum_formatted v then 4 else 0)
        | Inl (Inr v) \<Rightarrow> 3
        | Inr (Inl v) \<Rightarrow> 1
        | Inr (Inr v) \<Rightarrow> 2)")
     (auto simp: lower_not_checksum_formatted)

declare is_address.simps [simp del] is_checksum_address.simps [simp del]
  to_normalized_address.simps [simp del] to_checksum_address.simps [simp del]

subsection \<open>\<^verbatim>\<open>validate_address\<close>\<close>

definition validate_address :: "string \<Rightarrow> exn + string" where
  "validate_address address =
     (if \<not> is_address address then Inl (ValueError (''Invalid Ethereum address: '' @ address))
      else to_checksum_address address)"

subsection \<open>Python values, dictionaries and their text\<close>

datatype pyval = PyInt int | PyStr string

text \<open>A \<^verbatim>\<open>dict\<close> with string keys, in insertion order.\<close>

type_synonym dict = "(string \<times> pyval) list"

definition getitem :: "dict \<Rightarrow> string \<Rightarrow> exn + pyval" where
  "getitem d k = (case map_of d k of None \<Rightarrow> Inl (KeyError k) | Some v \<Rightarrow> Inr v)"

function str_nat :: "nat \<Rightarrow> string" where
  "str_nat n =
     (if n < 10 then [''0123456789'' ! n] else str_nat (n div 10) @ [''0123456789'' ! (n mod 10)])"
  by pat_completeness auto
termination
  by (relation "measure (\<lambda>n. n)") auto

declare str_nat.simps [simp del]

text \<open>\<^verbatim>\<open>str(i)\<close> of an \<^verbatim>\<open>int\<close>.\<close>

definition str_int :: "int \<Rightarrow> string" where
  "str_int i = (if i < 0 then CHR ''-'' # str_nat (nat (- i)) else str_nat (nat i))"

text \<open>What an f-string puts for \<^verbatim>\<open>{v}\<close>.\<close>

fun format_value :: "pyval \<Rightarrow> string" where
  "format_value (PyInt i) = str_int i"
| "format_value (PyStr s) = s"

subsection \<open>\<^verbatim>\<open>json.dump(obj, f, indent=2, ensure_ascii=False)\<close>\<close>

text \<open>
  The string encoder \<^verbatim>\<open>py_encode_basestring\<close>: the backslash, the double quote and the
  characters below \<open>0x20\<close> are replaced, every other character is kept.
\<close>

definition escape_char :: "char \<Rightarrow> string" where
  "escape_char c =
     (if c = CHR 0x5C then [CHR 0x5C, CHR 0x5C]
      else if c = CHR 0x22 then [CHR 0x5C, CHR 0x22]
      else if c = CHR 0x08 then [CHR 0x5C, CHR ''b'']
      else if c = CHR 0x0C then [CHR 0x5C, CHR ''f'']
      else if c = CHR 0x0A then [CHR 0x5C, CHR ''n'']
      else if c = CHR 0x0D then [CHR 0x5C, CHR ''r'']
      else if c = CHR 0x09 then [CHR 0x5C, CHR ''t'']
      else if (of_char c :: nat) < 0x20 then
        [CHR 0x5C, CHR ''u'', CHR ''0'', CHR ''0'',
         ''0123456789abcdef'' ! ((of_char c :: nat) div 16),
         ''0123456789abcdef'' ! ((of_char c :: nat) mod 16)]
      else [c])"

definition encode_basestring :: "string \<Rightarrow> string" where
  "encode_basestring s = [CHR 0x22] @ concat (map escape_char s) @ [CHR 0x22]"

fun encode_value :: "pyval \<Rightarrow> string" where
  "encode_value (PyInt i) = str_int i"
| "encode_value (PyStr s) = encode_basestring s"

fun join :: "string \<Rightarrow> string list \<Rightarrow> string" where
  "join sep [] = []"
| "join sep [x] = x"
| "join sep (x # y # ys) = x @ sep @ join sep (y # ys)"

definition json_dumps :: "dict \<Rightarrow> string" where
  "json_dumps d =
     (if d = [] then ''{}''
      else ''{'' @ [CHR 0x0A] @ ''  ''
           @ join ('','' @ [CHR 0x0A] @ ''  '')
               (map (\<lambda>(k, v). encode_basestring k @ '': '' @ encode_value v) d)
           @ [CHR 0x0A] @ ''}'')"

subsection \<open>Paths and the file system\<close>

text \<open>
  A \<^verbatim>\<open>pathlib.Path\<close> is absolute here (the registry path comes from \<^verbatim>\<open>resolve()\<close>): the list
  of its components below the root \<^verbatim>\<open>/\<close>, which may contain \<^verbatim>\<open>..\<close>.  POSIX paths.
\<close>

type_synonym path = "string list"

fun split_slash :: "string \<Rightarrow> string list" where
  "split_slash [] = [[]]"
| "split_slash (c # cs) =
     (if c = CHR ''/'' then [] # split_slash cs
      else (case split_slash cs of [] \<Rightarrow> [[c]] | w # ws \<Rightarrow> (c # w) # ws))"

text \<open>Parsing a path string drops empty components and \<^verbatim>\<open>.\<close> components.\<close>

definition parse_parts :: "string \<Rightarrow> string list" where
  "parse_parts s = filter (\<lambda>x. x \<noteq> [] \<and> x \<noteq> ''.'') (split_slash s)"

text \<open>\<^verbatim>\<open>p / s\<close>: a segment that starts with \<^verbatim>\<open>/\<close> replaces the path before it.\<close>

definition joinpath :: "path \<Rightarrow> string \<Rightarrow> path" where
  "joinpath p s = (if s \<noteq> [] \<and> hd s = CHR ''/'' then parse_parts s else p @ parse_parts s)"

definition parent :: "path \<Rightarrow> path" where
  "parent p = butlast p"

lemma parent_shorter: "parent p \<noteq> p \<Longrightarrow> length (parent p) < length p"
  by (cases p rule: rev_cases) (auto simp: parent_def)

definition path_str :: "path \<Rightarrow> string" where
  "path_str p = (if p = [] then ''/'' else concat (map (\<lambda>c. CHR ''/'' # c) p))"

text \<open>
  The file system maps the canonical path of every existing entry (its names from the
  root, no \<^verbatim>\<open>..\<close>) to a directory or to a file with its content.  There are no symbolic
  links, no permissions and no limits on names, and one process only.
\<close>

datatype node = Dir | File string

type_synonym fs = "path \<Rightarrow> node option"

text \<open>
  Path resolution: from the directory \<open>cur\<close>, follow the components; every directory passed
  through must exist.  The entry reached need not exist.
\<close>

fun walk :: "fs \<Rightarrow> path \<Rightarrow> string list \<Rightarrow> errno + path" where
  "walk fs cur [] = Inr cur"
| "walk fs cur (c # cs) =
     (case fs cur of
        None \<Rightarrow> Inl ENOENT
      | Some (File x) \<Rightarrow> Inl ENOTDIR
      | Some Dir \<Rightarrow> walk fs (if c = ''..'' then butlast cur else cur @ [c]) cs)"

definition os_stat :: "fs \<Rightarrow> path \<Rightarrow> errno + node" where
  "os_stat fs p =
     (case walk fs [] p of
        Inl e \<Rightarrow> Inl e
      | Inr t \<Rightarrow> (case fs t of None \<Rightarrow> Inl ENOENT | Some n \<Rightarrow> Inr n))"

definition os_mkdir :: "fs \<Rightarrow> path \<Rightarrow> errno + fs" where
  "os_mkdir fs p =
     (case walk fs [] p of
        Inl e \<Rightarrow> Inl e
      | Inr t \<Rightarrow> (case fs t of None \<Rightarrow> Inr (fs(t \<mapsto> Dir)) | Some n \<Rightarrow> Inl EEXIST))"

text \<open>A name with a NUL character never reaches the system: Python raises \<open>ValueError\<close>.\<close>

definition has_nul :: "path \<Rightarrow> bool" where
  "has_nul p = list_ex (\<lambda>c. CHR 0x00 \<in> set c) p"

text \<open>\<^verbatim>\<open>Path.exists\<close> and \<^verbatim>\<open>Path.is_dir\<close> answer \<open>False\<close> on every error.\<close>

definition exists :: "fs \<Rightarrow> path \<Rightarrow> bool" where
  "exists fs p =
     (if has_nul p then False else (case os_stat fs p of Inl e \<Rightarrow> False | Inr n \<Rightarrow> True))"

definition is_dir :: "fs \<Rightarrow> path \<Rightarrow> bool" where
  "is_dir fs p =
     (if has_nul p then False else (case os_stat fs p of Inr Dir \<Rightarrow> True | _ \<Rightarrow> False))"

text \<open>
  \<^verbatim>\<open>
  def mkdir(self, mode=0o777, parents=False, exist_ok=False):
      try:
          os.mkdir(self, mode)
      except FileNotFoundError:
          if not parents or self.parent == self:
              raise
          self.parent.mkdir(parents=True, exist_ok=True)
          self.mkdir(mode, parents=False, exist_ok=exist_ok)
      except OSError:
          if not exist_ok or not self.is_dir():
              raise
  \<close>
  The result is the exception raised, if any, and the file system left behind.
\<close>

function mkdir :: "fs \<Rightarrow> path \<Rightarrow> bool \<Rightarrow> bool \<Rightarrow> exn option \<times> fs" where
  "mkdir fs p parents exist_ok =
     (if has_nul p then (Some (ValueError ''embedded null byte''), fs)
      else
        (case os_mkdir fs p of
           Inr fs' \<Rightarrow> (None, fs')
         | Inl ENOENT \<Rightarrow>
             (if \<not> parents \<or> parent p = p then (Some (OSError ENOENT (path_str p)), fs)
              else
                (case mkdir fs (parent p) True True of
                   (Some e, fs1) \<Rightarrow> (Some e, fs1)
                 | (None, fs1) \<Rightarrow> mkdir fs1 p False exist_ok))
         | Inl e \<Rightarrow>
             (if \<not> exist_ok \<or> \<not> is_dir fs p then (Some (OSError e (path_str p)), fs)
              else (None, fs))))"
  by pat_completeness auto
termination
  by (relation "measure (\<lambda>(fs, p, parents, exist_ok). 2 * length p + (if parents then 1 else 0))")
     (auto simp: parent_shorter)

declare mkdir.simps [simp del]

text \<open>
  \<^verbatim>\<open>open("w")\<close> creates the file or empties an existing one and gives a handle on it (the
  canonical path); \<^verbatim>\<open>write\<close> appends to the file behind the handle.
\<close>

definition open_w :: "fs \<Rightarrow> path \<Rightarrow> (exn + path) \<times> fs" where
  "open_w fs p =
     (if has_nul p then (Inl (ValueError ''embedded null byte''), fs)
      else
        (case walk fs [] p of
           Inl e \<Rightarrow> (Inl (OSError e (path_str p)), fs)
         | Inr t \<Rightarrow>
             (case fs t of
                Some Dir \<Rightarrow> (Inl (OSError EISDIR (path_str p)), fs)
              | _ \<Rightarrow> (Inr t, fs(t \<mapsto> File [])))))"

definition file_write :: "fs \<Rightarrow> path \<Rightarrow> string \<Rightarrow> fs" where
  "file_write fs t s = (case fs t of Some (File c) \<Rightarrow> fs(t \<mapsto> File (c @ s)) | _ \<Rightarrow> fs)"

subsection \<open>The world of one run\<close>

text \<open>
  A contract answers each of the three calls with a value or with an exception (\<open>Inl\<close>, the
  text of the exception); \<^verbatim>\<open>decimals\<close> is a \<^verbatim>\<open>uint8\<close>.  A chain gives the contract behind every
  address (an address without a contract fails all three calls).
\<close>

record contract =
  name_call :: "string + string"
  symbol_call :: "string + string"
  decimals_call :: "string + 8 word"

type_synonym chain = "string \<Rightarrow> contract"

text \<open>
  \<^verbatim>\<open>parser.parse_args()\<close> gives the optional positional argument, or ends the process:
  with status 0 after printing the help, with status 2 after a usage error.
\<close>

datatype cmdline = Args "string option" | Help | UsageError

record world =
  cmdline :: cmdline
  prompt_reply :: "string option"
  environ :: "string \<Rightarrow> string option"
  script_path :: path
  endpoint :: "string \<Rightarrow> chain option"
  disk :: fs

text \<open>
  \<open>prompt_reply\<close> is \<^verbatim>\<open>input(...).strip()\<close>, \<open>None\<close> when the standard input is at its end;
  \<open>script_path\<close> is \<^verbatim>\<open>Path(__file__).resolve()\<close>; \<open>endpoint url\<close> is the node that answers at
  \<open>url\<close>, \<open>None\<close> when \<^verbatim>\<open>is_connected()\<close> is false; \<open>disk\<close> is the file system at the start.
\<close>

datatype rpc_event = IsConnected string | EthCall string string

text \<open>
  A printed line is its text, or \<^verbatim>\<open>f"Error: {e}"\<close>, or \<^verbatim>\<open>f"Unexpected error: {e}"\<close> for an
  exception \<open>e\<close>, or the prompt of \<^verbatim>\<open>input\<close>.
\<close>

datatype line = Line string | ErrorLine exn | UnexpectedErrorLine exn | Prompt string

record state =
  files :: fs
  stdout :: "line list"
  rpc_log :: "rpc_event list"

definition print :: "line \<Rightarrow> state \<Rightarrow> state" where
  "print l s = s\<lparr>stdout := stdout s @ [l]\<rparr>"

definition rpc :: "rpc_event list \<Rightarrow> state \<Rightarrow> state" where
  "rpc evs s = s\<lparr>rpc_log := rpc_log s @ evs\<rparr>"

subsection \<open>The program\<close>

definition CHAIN_ID :: int where
  "CHAIN_ID = 143"

definition RPC_URL :: "world \<Rightarrow> string" where
  "RPC_URL w =
     (case environ w ''MONAD_RPC_URL'' of None \<Rightarrow> ''https://rpc.monad.xyz'' | Some u \<Rightarrow> u)"

definition get_mainnet_directory :: "world \<Rightarrow> fs \<Rightarrow> exn + path" where
  "get_mainnet_directory w fs =
     (let script_dir = parent (script_path w);
          mainnet_dir = joinpath (parent script_dir) ''mainnet''
      in if \<not> is_dir fs mainnet_dir
         then Inl (FileNotFoundError (''Mainnet directory not found: '' @ path_str mainnet_dir))
         else Inr mainnet_dir)"

text \<open>The result of \<^verbatim>\<open>fetch_token_data\<close>, and the contract calls it sent, in order.\<close>

definition fetch_token_data :: "chain \<Rightarrow> string \<Rightarrow> (exn + dict) \<times> rpc_event list" where
  "fetch_token_data web3 address =
     (let contract = web3 address
      in case name_call contract of
           Inl e \<Rightarrow> (Inl (Exception (''Failed to fetch token data: '' @ e)),
                     [EthCall address ''name''])
         | Inr name \<Rightarrow>
             (case symbol_call contract of
                Inl e \<Rightarrow> (Inl (Exception (''Failed to fetch token data: '' @ e)),
                          [EthCall address ''name'', EthCall address ''symbol''])
              | Inr symbol \<Rightarrow>
                  (case decimals_call contract of
                     Inl e \<Rightarrow> (Inl (Exception (''Failed to fetch token data: '' @ e)),
                               [EthCall address ''name'', EthCall address ''symbol'',
                                EthCall address ''decimals''])
                   | Inr decimals \<Rightarrow>
                       (Inr [(''chainId'', PyInt CHAIN_ID),
                             (''address'', PyStr address),
                             (''name'', PyStr name),
                             (''symbol'', PyStr symbol),
                             (''decimals'', PyInt (uint decimals))],
                        [EthCall address ''name'', EthCall address ''symbol'',
                         EthCall address ''decimals'']))))"

definition create_token_directory :: "fs \<Rightarrow> path \<Rightarrow> dict \<Rightarrow> (exn + path) \<times> fs" where
  "create_token_directory fs mainnet_dir token_data =
     (case getitem token_data ''symbol'' of
        Inl e \<Rightarrow> (Inl e, fs)
      | Inr (PyInt i) \<Rightarrow>
          (Inl (TypeError ''unsupported operand type(s) for /: 'PosixPath' and 'int' ''), fs)
      | Inr (PyStr symbol) \<Rightarrow>
          (let token_dir = joinpath mainnet_dir symbol
           in if exists fs token_dir
              then (Inl (FileExistsError
                           (''Token directory already exists: '' @ path_str token_dir)), fs)
              else
                (case mkdir fs token_dir True False of
                   (Some e, fs1) \<Rightarrow> (Inl e, fs1)
                 | (None, fs1) \<Rightarrow>
                     (let data_file = joinpath token_dir ''data.json''
                      in case open_w fs1 data_file of
                           (Inl e, fs2) \<Rightarrow> (Inl e, fs2)
                         | (Inr f, fs2) \<Rightarrow>
                             (let fs3 = file_write fs2 f (json_dumps token_data);
                                  fs4 = file_write fs3 f [CHR 0x0A]
                              in (Inr token_dir, fs4))))))"

text \<open>The body of the \<^verbatim>\<open>try\<close> statement of \<^verbatim>\<open>main\<close>: the value returned or the exception raised.\<close>

definition main_try :: "world \<Rightarrow> string \<Rightarrow> state \<Rightarrow> (exn + int) \<times> state" where
  "main_try w address0 s0 =
     (let s1 = print (Line (''Validating address: '' @ address0)) s0
      in case validate_address address0 of
           Inl e \<Rightarrow> (Inl e, s1)
         | Inr address \<Rightarrow>
     (let s2 = print (Line (''Checksummed address: '' @ address)) s1;
          s3 = rpc [IsConnected (RPC_URL w)] s2
      in case endpoint w (RPC_URL w) of
           None \<Rightarrow> (Inr 1, print (Line ''Error: Failed to connect to the RPC'') s3)
         | Some web3 \<Rightarrow>
     (let s4 = print (Line ''Connected successfully'') s3;
          s5 = print (Line (CHR 0x0A # ''Fetching token data from '' @ address @ ''...'')) s4
      in case fetch_token_data web3 address of
           (Inl e, calls) \<Rightarrow> (Inl e, rpc calls s5)
         | (Inr token_data, calls) \<Rightarrow>
     (let s7 = print (Line (CHR 0x0A # ''Token found:'')) (rpc calls s5)
      in case getitem token_data ''name'' of
           Inl e \<Rightarrow> (Inl e, s7)
         | Inr name \<Rightarrow>
     (let s8 = print (Line (''  Name: '' @ format_value name)) s7
      in case getitem token_data ''symbol'' of
           Inl e \<Rightarrow> (Inl e, s8)
         | Inr symbol \<Rightarrow>
     (let s9 = print (Line (''  Symbol: '' @ format_value symbol)) s8
      in case getitem token_data ''decimals'' of
           Inl e \<Rightarrow> (Inl e, s9)
         | Inr decimals \<Rightarrow>
     (let s10 = print (Line (''  Decimals: '' @ format_value decimals)) s9
      in case get_mainnet_directory w (files s10) of
           Inl e \<Rightarrow> (Inl e, s10)
         | Inr mainnet_dir \<Rightarrow>
     (let s11 = print (Line (CHR 0x0A # ''Creating token directory...'')) s10
      in case create_token_directory (files s11) mainnet_dir token_data of
           (Inl e, fs') \<Rightarrow> (Inl e, s11\<lparr>files := fs'\<rparr>)
         | (Inr token_dir, fs') \<Rightarrow>
     (let s12 = print (Line ([CHR 0x0A, CHR 0xE2, CHR 0x9C, CHR 0x93]
                              @ '' Token successfully added!'')) (s11\<lparr>files := fs'\<rparr>);
          s13 = print (Line (''  Directory: '' @ path_str token_dir)) s12;
          s14 = print (Line (''  Data file: ''
                              @ path_str (joinpath token_dir ''data.json''))) s13
      in case getitem token_data ''symbol'' of
           Inl e \<Rightarrow> (Inl e, s14)
         | Inr symbol' \<Rightarrow>
             (Inr 0,
              print (Line (CHR 0x0A # ''  Note: Don'' @ [CHR 0x27]
                           @ ''t forget to add a logo file (logo.svg or logo.png) to the ''
                           @ format_value symbol' @ ''/ directory!'')) s14))))))))))"

text \<open>
  How the process ends: with an exit status, or with an exception that nothing caught (the
  interpreter prints a traceback).
\<close>

datatype ending = Exit int | Traceback exn

text \<open>\<^verbatim>\<open>sys.exit(main())\<close>, from the start of the process.\<close>

definition main :: "world \<Rightarrow> ending \<times> state" where
  "main w =
     (let s0 = \<lparr>files = disk w, stdout = [], rpc_log = []\<rparr>
      in case cmdline w of
           Help \<Rightarrow> (Exit 0, s0)
         | UsageError \<Rightarrow> (Exit 2, s0)
         | Args a \<Rightarrow>
             (case (if (case a of None \<Rightarrow> True | Some x \<Rightarrow> x = [])
                    then (case prompt_reply w of
                            None \<Rightarrow> Inl EOFError
                          | Some r \<Rightarrow>
                              Inr (r, print (Prompt ''Enter token contract address: '') s0))
                    else Inr (case a of None \<Rightarrow> [] | Some x \<Rightarrow> x, s0))
              of
                Inl e \<Rightarrow> (Traceback e, print (Prompt ''Enter token contract address: '') s0)
              | Inr (address, s1) \<Rightarrow>
                  if address = [] then (Exit 1, print (Line ''Error: No address provided'') s1)
                  else
                    (case main_try w address s1 of
                       (Inr code, s2) \<Rightarrow> (Exit code, s2)
                     | (Inl e, s2) \<Rightarrow>
                         if isinstance_ValueError e then (Exit 1, print (ErrorLine e) s2)
                         else if isinstance_FileNotFoundError e then (Exit 1, print (ErrorLine e) s2)
                         else if isinstance_FileExistsError e then (Exit 1, print (ErrorLine e) s2)
                         else (Exit 1, print (UnexpectedErrorLine e) s2))))"

subsection \<open>Sample inputs\<close>

text \<open>
  A token contract, a contract whose name and symbol are empty, a disk with the repository
  (the registry \<^verbatim>\<open>/repo/mainnet\<close> holds the token \<^verbatim>\<open>OLD\<close> and a plain file \<^verbatim>\<open>README\<close>), the
  record of the token contract, a run with the zero address as argument, and a state with
  nothing printed, nothing sent and an empty disk.
\<close>

definition example_contract :: contract where
  "example_contract =
     \<lparr>name_call = Inr ''Example Token'', symbol_call = Inr ''EXT'', decimals_call = Inr 18\<rparr>"

definition unnamed_contract :: contract where
  "unnamed_contract = \<lparr>name_call = Inr [], symbol_call = Inr [], decimals_call = Inr 0\<rparr>"

definition example_disk :: fs where
  "example_disk =
     map_of [([], Dir), ([''repo''], Dir), ([''repo'', ''mainnet''], Dir),
             ([''repo'', ''scripts''], Dir),
             ([''repo'', ''scripts'', ''add_token.py''], File ''#!/usr/bin/env python3''),
             ([''repo'', ''mainnet'', ''OLD''], Dir),
             ([''repo'', ''mainnet'', ''OLD'', ''data.json''], File ''{}''),
             ([''repo'', ''mainnet'', ''README''], File ''tokens'')]"

definition example_record :: dict where
  "example_record =
     [(''chainId'', PyInt 143),
      (''address'', PyStr ''0x0000000000000000000000000000000000000000''),
      (''name'', PyStr ''Example Token''), (''symbol'', PyStr ''EXT''),
      (''decimals'', PyInt 18)]"

definition example_world :: world where
  "example_world =
     \<lparr>cmdline = Args (Some ''0x0000000000000000000000000000000000000000''),
      prompt_reply = None,
      environ = (\<lambda>k. None),
      script_path = [''repo'', ''scripts'', ''add_token.py''],
      endpoint = (\<lambda>url. if url = ''https://rpc.monad.xyz''
                           then Some (\<lambda>a. example_contract) else None),
      disk = example_disk\<rparr>"

definition no_effects :: state where
  "no_effects = \<lparr>files = Map.empty, stdout = [], rpc_log = []\<rparr>"

section \<open>Properties\<close>

subsection \<open>Fetching the metadata\<close>




text \<open>
  C8, as the program has it.  When the three calls of the contract answer, the record holds
  exactly their answers: \<open>decimals\<close> is an integer from 0 to 255, \<open>name\<close> and \<open>symbol\<close> are
  the strings the contract returned, empty when the contract returns them empty.
\<close>

theorem fetch_token_data_returns_call_results:
  assumes "name_call (web3 address) = Inr name"
    and "symbol_call (web3 address) = Inr symbol"
    and "decimals_call (web3 address) = Inr decimals"
  shows "fst (fetch_token_data web3 address)
           = Inr [(''chainId'', PyInt 143), (''address'', PyStr address),
                  (''name'', PyStr name), (''symbol'', PyStr symbol),
                  (''decimals'', PyInt (uint decimals))]
         \<and> 0 \<le> uint decimals \<and> uint decimals < 256"
proof -
  have "uint decimals < 2 ^ LENGTH(8)" by (rule uint_bounded)
  then show ?thesis using assms by (simp add: fetch_token_data_def CHAIN_ID_def)
qed

theorem fetch_token_data_returns_call_results_witness:
  "name_call example_contract = Inr ''Example Token''
   \<and> symbol_call example_contract = Inr ''EXT''
   \<and> decimals_call example_contract = Inr 18
   \<and> fst (fetch_token_data (\<lambda>a. example_contract)
             ''0x0000000000000000000000000000000000000000'')
       = Inr [(''chainId'', PyInt 143),
              (''address'', PyStr ''0x0000000000000000000000000000000000000000''),
              (''name'', PyStr ''Example Token''), (''symbol'', PyStr ''EXT''),
              (''decimals'', PyInt 18)]"
proof -
  have n: "name_call ((\<lambda>a. example_contract) ''0x0000000000000000000000000000000000000000'')
             = Inr ''Example Token''"
    and y: "symbol_call ((\<lambda>a. example_contract) ''0x0000000000000000000000000000000000000000'')
             = Inr ''EXT''"
    and d: "decimals_call ((\<lambda>a. example_contract) ''0x0000000000000000000000000000000000000000'')
             = Inr 18"
    by (simp_all add: example_contract_def)
  show ?thesis
    using fetch_token_data_returns_call_results[OF n y d] n y d by simp
qed

text \<open>
  A contract may answer \<^verbatim>\<open>name()\<close> and \<^verbatim>\<open>symbol()\<close> with the empty string; the record then
  has an empty name and an empty symbol.
\<close>

theorem fetch_token_data_empty_strings:
  "fst (fetch_token_data (\<lambda>a. unnamed_contract) ''0x0000000000000000000000000000000000000000'')
     = Inr [(''chainId'', PyInt 143),
            (''address'', PyStr ''0x0000000000000000000000000000000000000000''),
            (''name'', PyStr []), (''symbol'', PyStr []), (''decimals'', PyInt 0)]"
  by (simp add: fetch_token_data_def unnamed_contract_def CHAIN_ID_def)

subsection \<open>Validating the address\<close>

lemma lower_char_id: "\<not> is_upper_letter c \<Longrightarrow> lower_char c = c"
  by (simp add: lower_char_def is_upper_letter_def)


lemma lower_char_idem: "lower_char (lower_char c) = lower_char c"
  using lower_char_id[OF lower_char_not_upper[of c]] .


lemma hex_lower_char: "is_hex_char c \<Longrightarrow> is_hex_char (lower_char c)"
proof -
  have "\<forall>c\<in>set ''0123456789abcdefABCDEF''. is_hex_char (lower_char c)"
    by (simp add: is_hex_char_def lower_char_def)
  then show "is_hex_char c \<Longrightarrow> is_hex_char (lower_char c)"
    unfolding is_hex_char_def[of c] by blast
qed



lemma lower_char_eq_x: "lower_char c = CHR ''x'' \<longleftrightarrow> c = CHR ''x'' \<or> c = CHR ''X''"
  by (auto simp: lower_char_def)

lemma lower_char_eq_0: "lower_char c = CHR ''0'' \<longleftrightarrow> c = CHR ''0''"
  by (auto simp: lower_char_def)

lemma lower_char_neq_X: "lower_char c \<noteq> CHR ''X''"
  by (auto simp: lower_char_def)

lemma is_0x_prefixed_iff:
  "is_0x_prefixed v \<longleftrightarrow> (\<exists>c r. v = CHR ''0'' # c # r \<and> (c = CHR ''x'' \<or> c = CHR ''X''))"
  by (cases v; cases "tl v") (auto simp: is_0x_prefixed_def)

lemma is_0x_prefixed_lower: "is_0x_prefixed (lower v) = is_0x_prefixed v"
  by (cases v; cases "tl v")
     (auto simp: is_0x_prefixed_def lower_def lower_char_eq_x lower_char_eq_0 lower_char_neq_X)



lemma add_0x_prefix_lower:
  "add_0x_prefix (lower v) = ''0x'' @ lower (remove_0x_prefix v)"
proof (cases "is_0x_prefixed v")
  case True
  then obtain c r where v: "v = CHR ''0'' # c # r" and c: "c = CHR ''x'' \<or> c = CHR ''X''"
    unfolding is_0x_prefixed_iff by blast
  have lc: "lower_char c = CHR ''x''" using c by (simp only: lower_char_eq_x)
  have l0: "lower_char CHR ''0'' = CHR ''0''" by (simp only: lower_char_eq_0)
  have a: "add_0x_prefix (lower v) = lower v"
    using True by (simp only: add_0x_prefix_def is_0x_prefixed_lower if_True)
  have b: "remove_0x_prefix v = r"
    using True by (simp only: remove_0x_prefix_def if_True) (simp only: v drop_Suc_Cons drop_0 numeral_2_eq_2)
  have "lower v = CHR ''0'' # CHR ''x'' # lower r"
    by (simp only: v lower_def list.map lc l0)
  then show ?thesis unfolding a b by simp
next
  case False
  then show ?thesis
    by (simp add: add_0x_prefix_def remove_0x_prefix_def is_0x_prefixed_lower)
qed


lemma is_hex_address_hexstr: "is_hex_address v \<Longrightarrow> is_hexstr v"
  by (auto simp: is_hex_address_def is_hexstr_def remove_0x_prefix_def is_0x_prefixed_def)

lemma hexstr_if_str_to_hex_address:
  "is_hex_address v \<Longrightarrow> hexstr_if_str_to_hex v = Inr (''0x'' @ lower (remove_0x_prefix v))"
  by (simp add: hexstr_if_str_to_hex_def is_hex_address_hexstr add_0x_prefix_lower)

lemma remove_0x_prefix_0x_hex:
  "list_all is_hex_char h \<Longrightarrow> h \<noteq> [] \<Longrightarrow> remove_0x_prefix (''0x'' @ h) = h"
  by (simp add: remove_0x_prefix_def is_0x_prefixed_def)

lemma is_hex_address_norm:
  assumes "is_hex_address v"
  shows "is_hex_address (''0x'' @ lower (remove_0x_prefix v))"
proof -
  let ?h = "lower (remove_0x_prefix v)"
  have len: "length ?h = 40" and hex: "list_all is_hex_char ?h"
    using assms by (auto simp: is_hex_address_def lower_def list_all_iff hex_lower_char)
  then have "remove_0x_prefix (''0x'' @ ?h) = ?h"
    by (intro remove_0x_prefix_0x_hex) auto
  then show ?thesis using len hex by (simp add: is_hex_address_def)
qed

lemma lower_norm: "lower (''0x'' @ lower h) = ''0x'' @ lower h"
  by (simp add: lower_def lower_char_idem lower_char_eq_x lower_char_eq_0)

lemma lower_norm_Cons: "lower (CHR ''0'' # CHR ''x'' # lower h) = CHR ''0'' # CHR ''x'' # lower h"
  using lower_norm[of h] by simp

lemma to_normalized_address_hex:
  assumes "is_hex_address v"
  shows "to_normalized_address v = Inr (''0x'' @ lower (remove_0x_prefix v))"
proof -
  let ?n = "''0x'' @ lower (remove_0x_prefix v)"
  have hx: "is_hex_address ?n" by (rule is_hex_address_norm[OF assms])
  have "is_hex_address (lower ?n)" unfolding lower_norm by (rule hx)
  then have "\<not> is_checksum_formatted (lower ?n)" by (rule lower_not_checksum_formatted)
  then have nf: "\<not> is_checksum_formatted ?n" unfolding lower_norm .
  have "is_address ?n" by (subst is_address.simps) (simp only: hx nf if_True if_False)
  then show ?thesis
    by (subst to_normalized_address.simps)
       (simp add: hexstr_if_str_to_hex_address[OF assms] lower_norm_Cons Let_def)
qed

lemma to_checksum_address_hex:
  "is_hex_address v \<Longrightarrow>
     to_checksum_address v = Inr (checksum_encode (''0x'' @ lower (remove_0x_prefix v)))"
  by (subst to_checksum_address.simps) (simp add: to_normalized_address_hex)

lemma is_address_hex: "is_address v \<Longrightarrow> is_hex_address v"
  by (subst (asm) is_address.simps) (simp split: if_splits)

lemma validate_address_valid:
  "is_address v \<Longrightarrow>
     validate_address v = Inr (checksum_encode (''0x'' @ lower (remove_0x_prefix v)))"
  by (simp add: validate_address_def to_checksum_address_hex is_address_hex)

lemma validate_address_invalid:
  "\<not> is_address v \<Longrightarrow>
     validate_address v = Inl (ValueError (''Invalid Ethereum address: '' @ v))"
  by (simp add: validate_address_def)










text \<open>
  Forty hexadecimal digits without the \<open>0x\<close> prefix are a valid address: validation
  succeeds and returns the checksummed, prefixed form.
\<close>

theorem validate_address_accepts_missing_prefix:
  "validate_address ''d3cda913deb6f67967b99d67acdfa1712c293601''
     = Inr (checksum_encode ''0xd3cda913deb6f67967b99d67acdfa1712c293601'')"
proof -
  have a: "is_address ''d3cda913deb6f67967b99d67acdfa1712c293601''"
    by (subst is_address.simps)
       (simp add: is_hex_address_def is_checksum_formatted_def remove_0x_prefix_def
          is_0x_prefixed_def islower_def is_lower_letter_def is_upper_letter_def is_hex_char_def)
  show ?thesis
    unfolding validate_address_valid[OF a]
    by (simp add: remove_0x_prefix_def is_0x_prefixed_def lower_def lower_char_def)
qed

subsection \<open>The file system\<close>

lemma walk_update:
  "walk fs cur p = Inr t \<Longrightarrow> fs f \<noteq> Some Dir \<Longrightarrow> walk (fs(f \<mapsto> n)) cur p = Inr t"
proof (induction p arbitrary: cur)
  case Nil
  then show ?case by simp
next
  case (Cons c cs)
  from Cons.prems have d: "fs cur = Some Dir"
    by (auto split: option.splits node.splits)
  with Cons.prems have "cur \<noteq> f" by auto
  with d Cons show ?case by simp
qed

text \<open>Directories stay: every directory of \<open>fs\<close> is a directory of \<open>fs'\<close>.\<close>

lemma walk_dirs_stay:
  "walk fs cur p = Inr t \<Longrightarrow> (\<forall>q. fs q = Some Dir \<longrightarrow> fs' q = Some Dir)
     \<Longrightarrow> walk fs' cur p = Inr t"
proof (induction p arbitrary: cur)
  case Nil
  then show ?case by simp
next
  case (Cons c cs)
  from Cons.prems have d: "fs cur = Some Dir"
    by (auto split: option.splits node.splits)
  with Cons show ?case by simp
qed

lemma is_dir_iff:
  "is_dir fs p \<longleftrightarrow> \<not> has_nul p \<and> (\<exists>t. walk fs [] p = Inr t \<and> fs t = Some Dir)"
  by (auto simp: is_dir_def os_stat_def split: sum.splits option.splits node.splits)

lemma exists_iff:
  "exists fs p \<longleftrightarrow> \<not> has_nul p \<and> (\<exists>t n. walk fs [] p = Inr t \<and> fs t = Some n)"
  by (auto simp: exists_def os_stat_def split: sum.splits option.splits)

lemma is_dir_exists: "is_dir fs p \<Longrightarrow> exists fs p"
  by (auto simp: is_dir_iff exists_iff)

lemma is_dir_dirs_stay:
  "is_dir fs p \<Longrightarrow> (\<forall>q. fs q = Some Dir \<longrightarrow> fs' q = Some Dir) \<Longrightarrow> is_dir fs' p"
  unfolding is_dir_iff using walk_dirs_stay by blast

lemma os_mkdir_Inr:
  assumes "os_mkdir fs p = Inr fs'"
  shows "\<exists>t. walk fs [] p = Inr t \<and> fs t = None \<and> fs' = fs(t \<mapsto> Dir)"
  using assms by (auto simp: os_mkdir_def split: sum.splits option.splits)

lemma mkdir_None:
  "mkdir fs p parents exist_ok = (None, fs') \<Longrightarrow>
     (\<forall>q. fs q = Some Dir \<longrightarrow> fs' q = Some Dir) \<and> is_dir fs' p"
proof (induction fs p parents exist_ok arbitrary: fs' rule: mkdir.induct)
  case (1 fs p parents exist_ok)
  from "1.prems" have nn: "\<not> has_nul p"
    by (subst (asm) mkdir.simps) (auto split: if_splits)
  show ?case
  proof (cases "os_mkdir fs p")
    case (Inr fs1)
    with "1.prems" nn have eq: "fs' = fs1" by (subst (asm) mkdir.simps) simp
    obtain t where t: "walk fs [] p = Inr t" "fs t = None" "fs1 = fs(t \<mapsto> Dir)"
      using os_mkdir_Inr[OF Inr] by blast
    have "walk fs1 [] p = Inr t" unfolding t(3) using t(1,2) by (intro walk_update) auto
    then have "is_dir fs1 p" using nn t(3) by (auto simp: is_dir_iff)
    moreover have "\<forall>q. fs q = Some Dir \<longrightarrow> fs1 q = Some Dir" using t(2,3) by auto
    ultimately show ?thesis using eq by simp
  next
    case (Inl e)
    show ?thesis
    proof (cases "e = ENOENT")
      case True
      with Inl "1.prems" nn have c: "parents" "parent p \<noteq> p"
        by (subst (asm) mkdir.simps; auto split: if_splits)+
      from Inl True "1.prems" nn c obtain fs1 where
        m1: "mkdir fs (parent p) True True = (None, fs1)" and
        m2: "mkdir fs1 p False exist_ok = (None, fs')"
        by (subst (asm) mkdir.simps) (auto split: if_splits prod.splits option.splits)
      have i1: "\<forall>q. fs q = Some Dir \<longrightarrow> fs1 q = Some Dir"
        using "1.IH"(1) nn Inl True c m1 by blast
      have i2: "(\<forall>q. fs1 q = Some Dir \<longrightarrow> fs' q = Some Dir) \<and> is_dir fs' p"
        using "1.IH"(2)[OF nn Inl True _ m1[symmetric] refl m2] c by blast
      show ?thesis using i1 i2 by auto
    next
      case False
      with Inl "1.prems" nn have "fs' = fs \<and> is_dir fs p"
        by (subst (asm) mkdir.simps) (cases e; auto split: if_splits)
      then show ?thesis by simp
    qed
  qed
qed


lemma joinpath_data_json: "joinpath p ''data.json'' = p @ [''data.json'']"
  by (simp add: joinpath_def parse_parts_def)

lemma joinpath_empty: "joinpath p [] = p"
  by (simp add: joinpath_def parse_parts_def)

lemma create_token_directory_exists:
  assumes "getitem token_data ''symbol'' = Inr (PyStr symbol)"
    and "exists fs (joinpath mainnet_dir symbol)"
  shows "create_token_directory fs mainnet_dir token_data
           = (Inl (FileExistsError (''Token directory already exists: ''
                                      @ path_str (joinpath mainnet_dir symbol))), fs)"
  using assms by (simp add: create_token_directory_def)

lemma create_token_directory_Inr:
  assumes "create_token_directory fs mainnet_dir token_data = (Inr token_dir, fs')"
  shows "\<exists>symbol fs1 f.
           getitem token_data ''symbol'' = Inr (PyStr symbol)
           \<and> token_dir = joinpath mainnet_dir symbol
           \<and> \<not> exists fs token_dir
           \<and> mkdir fs token_dir True False = (None, fs1)
           \<and> \<not> has_nul (token_dir @ [''data.json''])
           \<and> walk fs1 [] (token_dir @ [''data.json'']) = Inr f
           \<and> fs1 f \<noteq> Some Dir
           \<and> fs' = fs1(f \<mapsto> File (json_dumps token_data @ [CHR 0x0A]))"
  using assms
  by (auto simp: create_token_directory_def Let_def joinpath_data_json open_w_def file_write_def
      split: sum.splits pyval.splits if_splits prod.splits option.splits node.splits)

lemma create_token_directory_file:
  assumes "create_token_directory fs mainnet_dir token_data = (Inr token_dir, fs')"
  shows "os_stat fs' (joinpath token_dir ''data.json'')
           = Inr (File (json_dumps token_data @ [CHR 0x0A]))"
proof -
  obtain fs1 f where w: "walk fs1 [] (token_dir @ [''data.json'']) = Inr f"
    and nd: "fs1 f \<noteq> Some Dir"
    and fs': "fs' = fs1(f \<mapsto> File (json_dumps token_data @ [CHR 0x0A]))"
    using create_token_directory_Inr[OF assms] by blast
  have "walk fs' [] (token_dir @ [''data.json'']) = Inr f"
    unfolding fs' by (rule walk_update[OF w nd])
  then show ?thesis by (simp add: os_stat_def joinpath_data_json fs')
qed

lemma create_token_directory_dirs:
  assumes "create_token_directory fs mainnet_dir token_data = (Inr token_dir, fs')"
  shows "(\<forall>q. fs q = Some Dir \<longrightarrow> fs' q = Some Dir) \<and> is_dir fs' token_dir"
proof -
  obtain fs1 f where m: "mkdir fs token_dir True False = (None, fs1)"
    and nd: "fs1 f \<noteq> Some Dir"
    and fs': "fs' = fs1(f \<mapsto> File (json_dumps token_data @ [CHR 0x0A]))"
    using create_token_directory_Inr[OF assms] by blast
  have 1: "\<forall>q. fs q = Some Dir \<longrightarrow> fs1 q = Some Dir" and 2: "is_dir fs1 token_dir"
    using mkdir_None[OF m] by auto
  have 3: "\<forall>q. fs1 q = Some Dir \<longrightarrow> fs' q = Some Dir" using nd fs' by auto
  show ?thesis using 1 3 is_dir_dirs_stay[OF 2 3] by auto
qed

lemma json_dumps_record:
  "json_dumps [(''chainId'', PyInt chain_id), (''address'', PyStr address),
               (''name'', PyStr name), (''symbol'', PyStr symbol),
               (''decimals'', PyInt decimals)]
   = ''{'' @ [CHR 0x0A]
     @ ''  '' @ [CHR 0x22] @ ''chainId'' @ [CHR 0x22] @ '': '' @ str_int chain_id
     @ '','' @ [CHR 0x0A]
     @ ''  '' @ [CHR 0x22] @ ''address'' @ [CHR 0x22] @ '': '' @ encode_basestring address
     @ '','' @ [CHR 0x0A]
     @ ''  '' @ [CHR 0x22] @ ''name'' @ [CHR 0x22] @ '': '' @ encode_basestring name
     @ '','' @ [CHR 0x0A]
     @ ''  '' @ [CHR 0x22] @ ''symbol'' @ [CHR 0x22] @ '': '' @ encode_basestring symbol
     @ '','' @ [CHR 0x0A]
     @ ''  '' @ [CHR 0x22] @ ''decimals'' @ [CHR 0x22] @ '': '' @ str_int decimals
     @ [CHR 0x0A] @ ''}''"
proof -
  have k: "encode_basestring ''chainId'' = [CHR 0x22] @ ''chainId'' @ [CHR 0x22]"
    "encode_basestring ''address'' = [CHR 0x22] @ ''address'' @ [CHR 0x22]"
    "encode_basestring ''name'' = [CHR 0x22] @ ''name'' @ [CHR 0x22]"
    "encode_basestring ''symbol'' = [CHR 0x22] @ ''symbol'' @ [CHR 0x22]"
    "encode_basestring ''decimals'' = [CHR 0x22] @ ''decimals'' @ [CHR 0x22]"
    by (simp_all add: encode_basestring_def escape_char_def)
  show ?thesis by (simp add: json_dumps_def k)
qed

subsection \<open>The run as a whole\<close>

lemma print_simps [simp]:
  "files (print l s) = files s" "rpc_log (print l s) = rpc_log s"
  "stdout (print l s) = stdout s @ [l]"
  by (simp_all add: print_def)

lemma rpc_simps [simp]:
  "files (rpc evs s) = files s" "rpc_log (rpc evs s) = rpc_log s @ evs"
  "stdout (rpc evs s) = stdout s"
  by (simp_all add: rpc_def)

text \<open>The address the run works on: the argument, or the reply to the prompt.\<close>

lemma main_with_address:
  assumes "a \<noteq> []"
    and "cmdline w = Args (Some a)
         \<or> (cmdline w = Args None \<or> cmdline w = Args (Some [])) \<and> prompt_reply w = Some a"
  shows "\<exists>s1. files s1 = disk w \<and> rpc_log s1 = [] \<and>
           main w =
             (case main_try w a s1 of
                (Inr code, s2) \<Rightarrow> (Exit code, s2)
              | (Inl e, s2) \<Rightarrow>
                  (Exit 1,
                   print (if isinstance_ValueError e \<or> isinstance_FileNotFoundError e
                             \<or> isinstance_FileExistsError e
                          then ErrorLine e else UnexpectedErrorLine e) s2))"
proof -
  let ?s0 = "\<lparr>files = disk w, stdout = [], rpc_log = []\<rparr>"
  from assms(2) show ?thesis
  proof (elim disjE conjE)
    assume "cmdline w = Args (Some a)"
    then show ?thesis using assms(1)
      by (intro exI[of _ ?s0]) (auto simp: main_def split: prod.splits sum.splits)
  next
    assume "cmdline w = Args None" "prompt_reply w = Some a"
    then show ?thesis using assms(1)
      by (intro exI[of _ "print (Prompt ''Enter token contract address: '') ?s0"])
         (auto simp: main_def split: prod.splits sum.splits)
  next
    assume "cmdline w = Args (Some [])" "prompt_reply w = Some a"
    then show ?thesis using assms(1)
      by (intro exI[of _ "print (Prompt ''Enter token contract address: '') ?s0"])
         (auto simp: main_def split: prod.splits sum.splits)
  qed
qed

lemma main_try_invalid:
  assumes "\<not> is_address a"
  shows "main_try w a s =
           (Inl (ValueError (''Invalid Ethereum address: '' @ a)),
            print (Line (''Validating address: '' @ a)) s)"
  by (simp add: main_try_def validate_address_invalid[OF assms])

lemma not_hex_address_invalid:
  assumes "length (remove_0x_prefix a) \<noteq> 40 \<or> \<not> list_all is_hex_char (remove_0x_prefix a)"
  shows "\<not> is_address a"
  using assms is_address_hex[of a] by (auto simp: is_hex_address_def)

end
